theory Spec2Isabelle
  imports Main "HOL-Library.Char_ord" "HOL-Library.List_Lexorder" "HOL-Library.AList"
begin

section \<open>Python strings\<close>

text \<open>
  A Python \<open>str\<close> is modelled as a HOL \<open>string\<close>, one \<open>char\<close> per code point
  (code points below 256).  Truthiness of a string is \<open>s \<noteq> []\<close>.
\<close>

text \<open>\<open>s.startswith(p)\<close>\<close>

definition startswith :: "string \<Rightarrow> string \<Rightarrow> bool" where
  "startswith s p = (take (length p) s = p)"

text \<open>\<open>s.endswith(p)\<close>\<close>

definition endswith :: "string \<Rightarrow> string \<Rightarrow> bool" where
  "endswith s p = (length p \<le> length s \<and> drop (length s - length p) s = p)"

text \<open>\<open>sub in s\<close>: \<open>sub\<close> occurs in \<open>s\<close> as a contiguous substring.\<close>

fun str_in :: "string \<Rightarrow> string \<Rightarrow> bool" where
  "str_in sub [] = (sub = [])"
| "str_in sub (c # cs) = (startswith (c # cs) sub \<or> str_in sub cs)"

text \<open>\<open>sep.join(xs)\<close>\<close>

fun str_join :: "string \<Rightarrow> string list \<Rightarrow> string" where
  "str_join sep [] = []"
| "str_join sep [x] = x"
| "str_join sep (x # y # ys) = x @ sep @ str_join sep (y # ys)"

text \<open>\<open>s.split(sep)\<close> for a one-character separator: never returns an empty list.\<close>

fun str_split :: "char \<Rightarrow> string \<Rightarrow> string list" where
  "str_split sep [] = [[]]"
| "str_split sep (c # cs) =
     (if c = sep then [] # str_split sep cs
      else (case str_split sep cs of
              [] \<Rightarrow> [[c]]
            | p # ps \<Rightarrow> (c # p) # ps))"

text \<open>
  \<open>str.isspace\<close> on one code point below 256: tab, line feed, vertical tab, form feed,
  carriage return, the separators 0x1c to 0x1f, space, 0x85 and 0xa0.
\<close>

definition isspace :: "char \<Rightarrow> bool" where
  "isspace c = (let n = (of_char c :: nat) in
     (9 \<le> n \<and> n \<le> 13) \<or> (28 \<le> n \<and> n \<le> 32) \<or> n = 133 \<or> n = 160)"

text \<open>\<open>s.strip()\<close>\<close>

definition str_strip :: "string \<Rightarrow> string" where
  "str_strip s = rev (dropWhile isspace (rev (dropWhile isspace s)))"

text \<open>
  \<open>s.lower()\<close> on code points below 256: the ASCII capitals and the Latin-1 capitals
  0xc0 to 0xde (0xd7, the multiplication sign, apart) move up by 32.
\<close>

definition lower_char :: "char \<Rightarrow> char" where
  "lower_char c = (let n = (of_char c :: nat) in
     if (65 \<le> n \<and> n \<le> 90) \<or> (192 \<le> n \<and> n \<le> 222 \<and> n \<noteq> 215)
     then char_of (n + 32) else c)"

definition str_lower :: "string \<Rightarrow> string" where
  "str_lower s = map lower_char s"

text \<open>The apostrophe, for the messages that quote a name.\<close>

definition apostrophe :: string where
  "apostrophe = [CHR 0x27]"

section \<open>Python values and dictionaries\<close>

datatype py_value = PyStr string | PyInt int | PyBool bool

text \<open>
  A response dictionary maps its keys to values; an absent key is \<open>None\<close>.
\<close>

type_synonym py_dict = "string \<rightharpoonup> py_value"

section \<open>Paths (\<open>pathlib\<close>, POSIX flavour)\<close>

text \<open>
  A pure path is a root (\<open>''''\<close>, \<open>''/''\<close> or \<open>''//''\<close>) and its components; empty
  components and \<open>.\<close> are dropped when a string is parsed.
\<close>

definition splitroot :: "string \<Rightarrow> string \<times> string" where
  "splitroot p =
     (let stripped = dropWhile (\<lambda>c. c = CHR ''/'') p;
          n = length p - length stripped
      in if n = 0 then ('''', p)
         else if n = 2 then (''//'', stripped)
         else (''/'', stripped))"

definition parse_path :: "string \<Rightarrow> string \<times> string list" where
  "parse_path p =
     (let (root, rel) = splitroot p
      in (root, filter (\<lambda>s. s \<noteq> [] \<and> s \<noteq> ''.'') (str_split (CHR ''/'') rel)))"

text \<open>\<open>str(path)\<close>\<close>

definition path_str :: "string \<times> string list \<Rightarrow> string" where
  "path_str p =
     (case p of (root, parts) \<Rightarrow>
        if root = [] \<and> parts = [] then ''.'' else root @ str_join ''/'' parts)"

text \<open>\<open>str(Path(p))\<close>\<close>

definition Path :: "string \<Rightarrow> string" where
  "Path p = path_str (parse_path p)"

text \<open>\<open>str(Path(base) / rel)\<close>: a rooted right operand replaces the left one.\<close>

definition path_join :: "string \<Rightarrow> string \<Rightarrow> string" where
  "path_join base rel =
     (let (r1, ps1) = parse_path base; (r2, ps2) = parse_path rel
      in if r2 \<noteq> [] then path_str (r2, ps2) else path_str (r1, ps1 @ ps2))"

text \<open>\<open>os.path.isabs(p)\<close>\<close>

definition isabs :: "string \<Rightarrow> bool" where
  "isabs p = startswith p ''/''"

section \<open>The file system and the processes\<close>

text \<open>
  A node is a regular file (its text, and whether the server may execute it) or a
  directory (whether the server may list it, and the names of its entries).  Nodes are
  keyed by the path string the server hands to the operating system.
\<close>

datatype node = RegFile string bool | Directory bool "string list"

type_synonym filesystem = "(string \<times> node) list"

text \<open>
  What \<open>subprocess.run\<close> does: the process completes with a return code and its two
  captured streams, or the call raises \<open>TimeoutExpired\<close>, or it raises another
  exception; the exceptions carry \<open>str(e)\<close>.
\<close>

datatype run_outcome =
    is_Completed: Completed int string string
  | is_TimeoutExpired: TimeoutExpired string
  | is_OtherException: OtherException string

text \<open>
  The world of the server: its configuration (\<open>CDP_PATH\<close>, \<open>TEMP_DIR\<close>,
  \<open>IS_APPLE_SILICON\<close>), the file system, the error (if any) the operating system raises
  when a path is opened for writing, the behaviour of the external programs (from argument
  vector, working directory, timeout and file system to the outcome and the file system
  they leave), and the argument vectors of the processes started so far.
\<close>

record world =
  CDP_PATH :: string
  TEMP_DIR :: string
  IS_APPLE_SILICON :: bool
  nodes :: filesystem
  write_error :: "string \<Rightarrow> string option"
  behaviour :: "string list \<Rightarrow> string option \<Rightarrow> nat option \<Rightarrow> filesystem
                 \<Rightarrow> run_outcome \<times> filesystem"
  spawned :: "string list list"

text \<open>\<open>Path(p).exists()\<close>, for a path string already in \<open>str(Path(...))\<close> form.\<close>

definition path_exists :: "world \<Rightarrow> string \<Rightarrow> bool" where
  "path_exists w p = (map_of (nodes w) p \<noteq> None)"

text \<open>\<open>subprocess.run(cmd, capture_output=True, text=True, cwd=..., timeout=...)\<close>\<close>

definition subprocess_run ::
  "world \<Rightarrow> string list \<Rightarrow> string option \<Rightarrow> nat option \<Rightarrow> run_outcome \<times> world" where
  "subprocess_run w cmd cwd timeout =
     (case behaviour w cmd cwd timeout (nodes w) of
        (outcome, fs') \<Rightarrow> (outcome, w\<lparr>nodes := fs', spawned := spawned w @ [cmd]\<rparr>))"

text \<open>\<open>Path(p).is_file()\<close>\<close>

definition is_file :: "world \<Rightarrow> string \<Rightarrow> bool" where
  "is_file w p = (case map_of (nodes w) p of Some (RegFile _ _) \<Rightarrow> True | _ \<Rightarrow> False)"

text \<open>\<open>Path(p).is_dir()\<close>\<close>

definition is_dir :: "world \<Rightarrow> string \<Rightarrow> bool" where
  "is_dir w p = (case map_of (nodes w) p of Some (Directory _ _) \<Rightarrow> True | _ \<Rightarrow> False)"

text \<open>
  \<open>os.access(p, os.X_OK)\<close>; for a directory the search permission is taken to be its
  list permission (the server asks for it on regular files only).
\<close>

definition access_X_OK :: "world \<Rightarrow> string \<Rightarrow> bool" where
  "access_X_OK w p =
     (case map_of (nodes w) p of
        Some (RegFile _ x) \<Rightarrow> x
      | Some (Directory r _) \<Rightarrow> r
      | None \<Rightarrow> False)"

text \<open>
  \<open>Path(d).iterdir()\<close>, run to its end: the names of the entries, or the message of the
  \<open>OSError\<close> it raises.
\<close>

definition iterdir :: "world \<Rightarrow> string \<Rightarrow> string + string list" where
  "iterdir w d =
     (case map_of (nodes w) d of
        None \<Rightarrow> Inl (''[Errno 2] No such file or directory: '' @ apostrophe @ d @ apostrophe)
      | Some (RegFile _ _) \<Rightarrow> Inl (''[Errno 20] Not a directory: '' @ apostrophe @ d @ apostrophe)
      | Some (Directory readable names) \<Rightarrow>
          if readable then Inr names
          else Inl (''[Errno 13] Permission denied: '' @ apostrophe @ d @ apostrophe))"

text \<open>The path of the entry \<open>name\<close> of the directory \<open>d\<close>, as \<open>iterdir\<close> builds it.\<close>

definition path_child :: "string \<Rightarrow> string \<Rightarrow> string" where
  "path_child d name = (case parse_path d of (root, parts) \<Rightarrow> path_str (root, parts @ [name]))"

text \<open>
  \<open>Path(p).write_text(content)\<close>: the world with the file written, or the message of
  the exception raised.  A file keeps its execute permission when it is overwritten; a new
  file has none.
\<close>

definition write_text :: "world \<Rightarrow> string \<Rightarrow> string \<Rightarrow> string + world" where
  "write_text w p content =
     (case map_of (nodes w) p of
        Some (Directory _ _) \<Rightarrow> Inl (''[Errno 21] Is a directory: '' @ apostrophe @ p @ apostrophe)
      | Some (RegFile _ x) \<Rightarrow>
          (case write_error w p of
             Some e \<Rightarrow> Inl e
           | None \<Rightarrow> Inr (w\<lparr>nodes := AList.update p (RegFile content x) (nodes w)\<rparr>))
      | None \<Rightarrow>
          (case write_error w p of
             Some e \<Rightarrow> Inl e
           | None \<Rightarrow> Inr (w\<lparr>nodes := AList.update p (RegFile content False) (nodes w)\<rparr>)))"

text \<open>\<open>Path(p).read_text()\<close> of a regular file.\<close>

definition read_text :: "world \<Rightarrow> string \<Rightarrow> string option" where
  "read_text w p = (case map_of (nodes w) p of Some (RegFile content _) \<Rightarrow> Some content | _ \<Rightarrow> None)"

text \<open>
  The number of bytes \<open>write_text\<close> puts on disk for a text of code points below 256
  (UTF-8: one byte below 128, two from 128 on; a line feed stays one byte on POSIX).
\<close>

definition utf8_length :: "string \<Rightarrow> nat" where
  "utf8_length s = sum_list (map (\<lambda>c. if (of_char c :: nat) < 128 then 1 else 2) s)"

section \<open>Helper functions of the server\<close>

text \<open>The category table, in the order the dictionary literal lists it.\<close>

definition CDP_CATEGORIES :: "(string \<times> string list) list" where
  "CDP_CATEGORIES =
     [(''Spectral Processing'',
         [''blur'', ''clean'', ''combine'', ''cross'', ''focus'', ''formants'',
          ''gate'', ''get'', ''hilite'', ''morph'', ''pitch'', ''spec'', ''strange'', ''stretch'']),
      (''Time Domain'',
         [''modify'', ''distort'', ''envel'', ''extend'', ''filter'', ''grain'',
          ''sfedit'', ''zigzag'']),
      (''Synthesis'', [''synth'', ''texture'', ''fracture'']),
      (''Analysis and Utility'', [''pvoc'', ''sndinfo'', ''housekeep'', ''submix'', ''mchshred'']),
      (''Other'', [])]"

text \<open>
  The inner loop of \<open>scan_cdp_programs\<close>: the first category whose list holds the
  program, if any.
\<close>

fun find_category :: "(string \<times> string list) list \<Rightarrow> string \<Rightarrow> string option" where
  "find_category [] prog = None"
| "find_category ((category, prog_list) # rest) prog =
     (if List.member prog_list prog then Some category else find_category rest prog)"

text \<open>One round of the outer loop, on the pair (categorized, uncategorized).\<close>

definition categorize ::
  "string \<Rightarrow> (string \<times> string list) list \<times> string list
          \<Rightarrow> (string \<times> string list) list \<times> string list" where
  "categorize prog st =
     (case st of (categorized, uncategorized) \<Rightarrow>
        (case find_category CDP_CATEGORIES prog of
           Some category \<Rightarrow> (AList.map_entry category (\<lambda>l. l @ [prog]) categorized, uncategorized)
         | None \<Rightarrow> (categorized, uncategorized @ [prog])))"

text \<open>
  \<open>scan_cdp_programs\<close>: the dictionary from category to program names, as the list of its
  items in insertion order.
\<close>

definition scan_cdp_programs :: "world \<Rightarrow> (string \<times> string list) list" where
  "scan_cdp_programs w =
     (let cdp_dir = Path (CDP_PATH w) in
      if \<not> path_exists w cdp_dir
      then [(''error'', [''CDP directory not found: '' @ CDP_PATH w])]
      else
        (case iterdir w cdp_dir of
           Inl e \<Rightarrow> [(''error'', [''Failed to scan CDP directory: '' @ e])]
         | Inr names \<Rightarrow>
             (let programs =
                    filter (\<lambda>name. is_file w (path_child cdp_dir name)
                                   \<and> access_X_OK w (path_child cdp_dir name)
                                   \<and> \<not> startswith name ''.'' \<and> \<not> endswith name ''.txt'') names;
                  categorized = map (\<lambda>(cat, prog_list). (cat, [])) CDP_CATEGORIES;
                  (categorized, uncategorized) = fold categorize (sort programs) (categorized, []);
                  categorized = (if uncategorized \<noteq> []
                                 then AList.update ''Other'' uncategorized categorized
                                 else categorized)
              in filter (\<lambda>(k, v). v \<noteq> []) categorized)))"

text \<open>
  The command \<open>run_cdp_for_usage\<close> builds: the program, the subprogram if one is given
  (and is not the empty string), the architecture prefix if needed.
\<close>

definition usage_cmd :: "world \<Rightarrow> string \<Rightarrow> string option \<Rightarrow> string list" where
  "usage_cmd w cmd_path subprogram =
     (let args = (case subprogram of
                    None \<Rightarrow> []
                  | Some s \<Rightarrow> if s \<noteq> [] then [s] else [])
      in if IS_APPLE_SILICON w
         then [''arch'', ''-x86_64'', cmd_path] @ args
         else [cmd_path] @ args)"

text \<open>
  \<open>run_cdp_for_usage\<close>: the triple (exit code, output, stderr) of a run with no
  argument, or with the subprogram alone.
\<close>

definition run_cdp_for_usage ::
  "world \<Rightarrow> string \<Rightarrow> string option \<Rightarrow> (int \<times> string \<times> string) \<times> world" where
  "run_cdp_for_usage w program subprogram =
     (let cmd_path = path_join (CDP_PATH w) program in
      if \<not> path_exists w cmd_path
      then ((- 1, '''',
             ''Program '' @ apostrophe @ program @ apostrophe @ '' not found at '' @ cmd_path), w)
      else
        (let cmd = usage_cmd w cmd_path subprogram
         in case subprocess_run w cmd None (Some 5) of
              (Completed returncode out err, w') \<Rightarrow>
                (let output = (if out \<noteq> [] then out else err)
                 in ((returncode, output, err), w'))
            | (TimeoutExpired e, w') \<Rightarrow>
                ((- 1, '''', ''Command timed out - program may be waiting for input''), w')
            | (OtherException e, w') \<Rightarrow> ((- 1, '''', ''Failed to execute: '' @ e), w')))"

text \<open>
  \<open>run_cdp_command\<close>: the triple (exit code, stdout, stderr).  The line it logs to the
  server's own standard error is in no result and is left out.
\<close>

definition run_cdp_command :: "world \<Rightarrow> string list \<Rightarrow> (int \<times> string \<times> string) \<times> world" where
  "run_cdp_command w command =
     (case command of
        [] \<Rightarrow> ((- 1, '''', ''Empty command array''), w)
      | program # args \<Rightarrow>
          (let cmd_path = path_join (CDP_PATH w) program in
           if \<not> path_exists w cmd_path
           then ((- 1, '''',
                  ''Program '' @ apostrophe @ program @ apostrophe @ '' not found at '' @ cmd_path), w)
           else
             (let full_cmd = (if IS_APPLE_SILICON w
                              then [''arch'', ''-x86_64'', cmd_path] @ args
                              else [cmd_path] @ args)
              in case subprocess_run w full_cmd (Some (TEMP_DIR w)) None of
                   (Completed returncode out err, w') \<Rightarrow> ((returncode, out, err), w')
                 | (TimeoutExpired e, w') \<Rightarrow> ((- 1, '''', ''Execution failed: '' @ e), w')
                 | (OtherException e, w') \<Rightarrow> ((- 1, '''', ''Execution failed: '' @ e), w'))))"

section \<open>The tools\<close>

text \<open>\<open>list_cdp_programs\<close>\<close>

definition list_cdp_programs :: "world \<Rightarrow> (string \<times> string list) list" where
  "list_cdp_programs w = scan_cdp_programs w"

text \<open>\<open>get_cdp_usage\<close>: the response dictionary, and the world after the call.\<close>

definition get_cdp_usage :: "world \<Rightarrow> string \<Rightarrow> string option \<Rightarrow> py_dict \<times> world" where
  "get_cdp_usage w program subprogram =
     (case run_cdp_for_usage w program subprogram of
        ((exit_code, output, stderr), w') \<Rightarrow>
          (let response =
                 [''program'' \<mapsto> PyStr program,
                  ''subprogram'' \<mapsto> PyStr (case subprogram of
                                              None \<Rightarrow> ''none''
                                            | Some s \<Rightarrow> if s \<noteq> [] then s else ''none''),
                  ''usage_text'' \<mapsto> PyStr (if output \<noteq> [] then output else stderr),
                  ''exit_code'' \<mapsto> PyInt exit_code];
               response =
                 (if output \<noteq> [] \<or> stderr \<noteq> []
                  then
                    (let text = (if output \<noteq> [] then output else stderr);
                         response = (if str_in ''USAGE:'' text \<or> str_in ''Usage:'' text
                                     then response(''has_usage'' \<mapsto> PyBool True)
                                     else response);
                         response = (if str_in ''MODES:'' text \<or> str_in ''Modes:'' text
                                     then response(''has_modes'' \<mapsto> PyBool True)
                                     else response);
                         response = (if list_ex (\<lambda>flag. str_in flag text)
                                          [''-'', ''FLAGS:'', ''Options:'']
                                     then response(''has_flags'' \<mapsto> PyBool True)
                                     else response);
                         response = (if str_in (program @ '' '' @ program) (str_lower text)
                                     then response(''note'' \<mapsto>
                                            PyStr (''This program uses double syntax: ''
                                                   @ program @ '' '' @ program))
                                     else response)
                     in response)
                  else response)
           in (response, w')))"

text \<open>\<open>execute_cdp\<close>: the result dictionary, and the world after the call.\<close>

definition execute_cdp :: "world \<Rightarrow> string list \<Rightarrow> py_dict \<times> world" where
  "execute_cdp w command =
     (if command = []
      then ([''status'' \<mapsto> PyStr ''failed'',
             ''error'' \<mapsto> PyStr ''Empty command array provided''], w)
      else
        (case run_cdp_command w command of
           ((exit_code, stdout, stderr), w') \<Rightarrow>
             (let success =
                    (exit_code = 0
                     \<or> (exit_code = 1 \<and> stdout \<noteq> [] \<and> stderr = [])
                     \<or> (length command > 2 \<and> path_exists w' (Path (last command))));
                  result = [''status'' \<mapsto> PyStr (if success then ''success'' else ''failed''),
                            ''exit_code'' \<mapsto> PyInt exit_code,
                            ''command'' \<mapsto> PyStr (str_join '' '' command),
                            ''stdout'' \<mapsto> PyStr (if stdout \<noteq> [] then stdout else ''''),
                            ''stderr'' \<mapsto> PyStr (if stderr \<noteq> [] then stderr else '''')];
                  result =
                    (if length command > 2
                     then (let possible_output = last command in
                           if \<not> startswith possible_output ''-'' \<and> str_in ''.'' possible_output
                           then (let result = result(''output_file'' \<mapsto> PyStr possible_output) in
                                 if path_exists w' (Path possible_output)
                                 then result(''output_exists'' \<mapsto> PyBool True)
                                 else result)
                           else result)
                     else result)
              in (result, w'))))"

text \<open>\<open>create_data_file\<close>: the result dictionary, and the world after the call.\<close>

definition create_data_file :: "world \<Rightarrow> string \<Rightarrow> string \<Rightarrow> py_dict \<times> world" where
  "create_data_file w filepath content =
     (let filepath = (if \<not> isabs filepath then path_join (TEMP_DIR w) filepath else filepath)
      in case write_text w (Path filepath) content of
           Inl e \<Rightarrow>
             ([''status'' \<mapsto> PyStr ''failed'',
               ''error'' \<mapsto> PyStr (''Failed to create data file: '' @ e)], w)
         | Inr w' \<Rightarrow>
             if path_exists w' (Path filepath)
             then (let lines = str_split (CHR 0x0A) (str_strip content)
                   in ([''status'' \<mapsto> PyStr ''success'',
                        ''filepath'' \<mapsto> PyStr filepath,
                        ''lines'' \<mapsto> PyInt (int (length lines)),
                        ''size'' \<mapsto> PyInt (int (length content)),
                        ''preview'' \<mapsto> PyStr (if length content > 200
                                                 then take 200 content @ ''...''
                                                 else content)], w'))
             else ([''status'' \<mapsto> PyStr ''failed'',
                    ''error'' \<mapsto> PyStr ''File was not created''], w'))"

section \<open>A sample installation\<close>

text \<open>
  A small installation on which the tools are run: four programs of the suite, one program
  the category table does not know, a text file, a hidden file and a sub-directory in the
  install directory; the scratch directory; and three files in the working directory of the
  server.
\<close>

definition demo_behaviour ::
  "string list \<Rightarrow> string option \<Rightarrow> nat option \<Rightarrow> filesystem \<Rightarrow> run_outcome \<times> filesystem" where
  "demo_behaviour argv cwd timeout fs =
     (if argv = [''/opt/cdp/blur'', ''blur'', ''in.ana'', ''out.ana'', ''50'']
      then (Completed 0 '''' '''', AList.update ''out.ana'' (RegFile ''ana'' False) fs)
      else if argv = [''/opt/cdp/housekeep'', ''chans'', ''4'', ''stereo.wav'', ''mono.wav'']
      then (Completed 1 ''done'' '''', AList.update ''mono.wav'' (RegFile ''riff'' False) fs)
      else if argv = [''/opt/cdp/modify'', ''speed'', ''-x'']
      then (Completed 2 '''' ''ERROR: bad mode'', fs)
      else if argv = [''/opt/cdp/sndinfo'', ''in.wav'']
      then (Completed 1 '''' ''ERROR: no mode'', fs)
      else if argv = [''/opt/cdp/sndinfo'', ''props'', ''in.wav'']
      then (Completed 1 '''' ''WARNING: no peak data'', fs)
      else if argv = [''/opt/cdp/blur''] \<and> timeout = Some 5
      then (Completed 255 ''USAGE: blur NAME (mode) infile outfile parameters'' '''', fs)
      else if argv = [''/opt/cdp/modify''] \<and> timeout = Some 5
      then (TimeoutExpired ''timed out after 5 seconds'', fs)
      else (OtherException ''[Errno 8] Exec format error'', fs))"

definition demo_world :: world where
  "demo_world =
     \<lparr>CDP_PATH = ''/opt/cdp'', TEMP_DIR = ''/tmp/cdp_mcp'', IS_APPLE_SILICON = False,
      nodes = [(''/opt/cdp'', Directory True
                  [''sndinfo'', ''blur'', ''zither'', ''readme.txt'', ''.DS_Store'', ''docs'',
                   ''modify'', ''housekeep'']),
               (''/opt/cdp/blur'', RegFile ''elf'' True),
               (''/opt/cdp/housekeep'', RegFile ''elf'' True),
               (''/opt/cdp/modify'', RegFile ''elf'' True),
               (''/opt/cdp/sndinfo'', RegFile ''elf'' True),
               (''/opt/cdp/zither'', RegFile ''elf'' True),
               (''/opt/cdp/readme.txt'', RegFile ''text'' True),
               (''/opt/cdp/.DS_Store'', RegFile ''bin'' True),
               (''/opt/cdp/docs'', Directory True []),
               (''/tmp/cdp_mcp'', Directory True []),
               (''in.wav'', RegFile ''riff'' False),
               (''out.wav'', RegFile ''riff'' False),
               (''-x'', RegFile ''stray'' False)],
      write_error = (\<lambda>p. None),
      behaviour = demo_behaviour,
      spawned = []\<rparr>"

text \<open>The content of the note file of the texture example: two lines, no final line feed.\<close>

definition notes_content :: string where
  "notes_content = ''0.0 60 0.5 100'' @ [CHR 0x0A] @ ''0.5 64 0.5 100''"

section \<open>Properties of \<open>execute_cdp\<close>\<close>

lemma execute_cdp_status:
  assumes "command \<noteq> []"
    and "run_cdp_command w command = ((exit_code, out, err), w')"
  shows "fst (execute_cdp w command) ''status'' =
           Some (PyStr (if exit_code = 0
                         \<or> (exit_code = 1 \<and> out \<noteq> [] \<and> err = [])
                         \<or> (length command > 2 \<and> path_exists w' (Path (last command)))
                      then ''success'' else ''failed''))"
  using assms by (simp add: execute_cdp_def Let_def)

text \<open>The unfoldings that evaluate a tool on the sample installation.\<close>

lemmas demo_defs =
  demo_world_def demo_behaviour_def run_cdp_command_def run_cdp_for_usage_def
  subprocess_run_def path_exists_def path_join_def parse_path_def splitroot_def
  path_str_def Path_def startswith_def apostrophe_def usage_cmd_def Let_def

lemma run_cdp_command_Nil: "run_cdp_command w [] = ((- 1, [], ''Empty command array''), w)"
  by (simp add: run_cdp_command_def)

text \<open>
  Claim C4.  Whenever the run of a command array yields exit code 0, \<open>execute_cdp\<close>
  reports status success, whatever stdout and stderr hold.
\<close>

theorem execute_cdp_exit_zero:
  assumes "fst (run_cdp_command w command) = (0, out, err)"
  shows "fst (execute_cdp w command) ''status'' = Some (PyStr ''success'')"
proof -
  from assms have ne: "command \<noteq> []"
    by (auto simp: run_cdp_command_Nil)
  obtain w' where "run_cdp_command w command = ((0, out, err), w')"
    using assms by (cases "run_cdp_command w command") auto
  with ne show ?thesis
    by (simp add: execute_cdp_status)
qed

theorem execute_cdp_exit_zero_witness:
  "fst (run_cdp_command demo_world [''blur'', ''blur'', ''in.ana'', ''out.ana'', ''50'']) = (0, '''', '''')
   \<and> fst (execute_cdp demo_world [''blur'', ''blur'', ''in.ana'', ''out.ana'', ''50'']) ''status''
       = Some (PyStr ''success'')"
proof -
  have h: "fst (run_cdp_command demo_world [''blur'', ''blur'', ''in.ana'', ''out.ana'', ''50''])
           = (0, '''', '''')"
    by (simp add: demo_defs)
  show ?thesis
    using h execute_cdp_exit_zero [OF h] by simp
qed

subsection \<open>Substring and prefix tests\<close>

lemma str_in_iff: "str_in sub s \<longleftrightarrow> (\<exists>pre suf. s = pre @ sub @ suf)"
proof (induction s)
  case Nil
  then show ?case by auto
next
  case (Cons c cs)
  have "startswith (c # cs) sub \<longleftrightarrow> (\<exists>suf. c # cs = sub @ suf)"
    unfolding startswith_def
    by (metis append_eq_conv_conj append_take_drop_id)
  moreover have "(\<exists>pre suf. c # cs = pre @ sub @ suf)
                 \<longleftrightarrow> (\<exists>suf. c # cs = sub @ suf) \<or> (\<exists>pre suf. cs = pre @ sub @ suf)"
  proof
    assume "\<exists>pre suf. c # cs = pre @ sub @ suf"
    then obtain pre suf where e: "c # cs = pre @ sub @ suf" by blast
    show "(\<exists>suf. c # cs = sub @ suf) \<or> (\<exists>pre suf. cs = pre @ sub @ suf)"
    proof (cases pre)
      case Nil
      with e show ?thesis by auto
    next
      case (Cons a pre')
      with e have "cs = pre' @ sub @ suf" by simp
      then show ?thesis by blast
    qed
  next
    assume "(\<exists>suf. c # cs = sub @ suf) \<or> (\<exists>pre suf. cs = pre @ sub @ suf)"
    then show "\<exists>pre suf. c # cs = pre @ sub @ suf"
    proof
      assume "\<exists>suf. c # cs = sub @ suf"
      then obtain suf where "c # cs = [] @ sub @ suf" by auto
      then show ?thesis by blast
    next
      assume "\<exists>pre suf. cs = pre @ sub @ suf"
      then obtain pre suf where "c # cs = (c # pre) @ sub @ suf" by auto
      then show ?thesis by blast
    qed
  qed
  ultimately show ?case using Cons.IH by simp
qed

lemma str_in_char: "str_in [c] s \<longleftrightarrow> c \<in> set s"
  by (induction s) (auto simp: startswith_def)

lemma startswith_char: "startswith s [c] \<longleftrightarrow> (\<exists>t. s = c # t)"
  by (cases s) (auto simp: startswith_def)

subsection \<open>The success inference\<close>

text \<open>
  Claim C1, as the code has it.  For every command array whose program is installed under
  \<open>CDP_PATH\<close>, \<open>execute_cdp\<close> reports status success if and only if the exit code is zero,
  or the exit code is one with non-empty stdout and empty stderr, or the array has more than
  two elements and its last element, read as a path, exists after the run; otherwise it
  reports status failed.  The success test looks at the length of the array only: it does
  not ask whether the last element starts with \<open>-\<close>.  Nothing is said here of an array
  whose program is not installed.
\<close>

theorem execute_cdp_success_iff:
  assumes "path_exists w (path_join (CDP_PATH w) program)"
    and "run_cdp_command w (program # args) = ((exit_code, out, err), w')"
  shows "(fst (execute_cdp w (program # args)) ''status'' = Some (PyStr ''success'')
            \<longleftrightarrow> (exit_code = 0
                 \<or> (exit_code = 1 \<and> out \<noteq> [] \<and> err = [])
                 \<or> (length (program # args) > 2
                     \<and> path_exists w' (Path (last (program # args))))))
         \<and> (fst (execute_cdp w (program # args)) ''status'' = Some (PyStr ''failed'')
            \<longleftrightarrow> \<not> (exit_code = 0
                   \<or> (exit_code = 1 \<and> out \<noteq> [] \<and> err = [])
                   \<or> (length (program # args) > 2
                       \<and> path_exists w' (Path (last (program # args))))))"
proof -
  have ne: "program # args \<noteq> []" by simp
  from execute_cdp_status [OF ne assms(2)] show ?thesis by simp
qed

theorem execute_cdp_success_iff_witness:
  "path_exists demo_world (path_join (CDP_PATH demo_world) ''housekeep'')
   \<and> fst (run_cdp_command demo_world [''housekeep'', ''chans'', ''4'', ''stereo.wav'', ''mono.wav''])
     = (1, ''done'', '''')
   \<and> fst (execute_cdp demo_world [''housekeep'', ''chans'', ''4'', ''stereo.wav'', ''mono.wav'']) ''status''
     = Some (PyStr ''success'')"
proof -
  let ?c = "[''housekeep'', ''chans'', ''4'', ''stereo.wav'', ''mono.wav'']"
  have inst: "path_exists demo_world (path_join (CDP_PATH demo_world) ''housekeep'')"
    by (simp add: demo_defs)
  have r1: "fst (run_cdp_command demo_world ?c) = (1, ''done'', '''')"
    by (simp add: demo_defs)
  then have r: "run_cdp_command demo_world ?c =
                  ((1, ''done'', ''''), snd (run_cdp_command demo_world ?c))"
    by (simp add: prod_eq_iff)
  show ?thesis
    using execute_cdp_success_iff [OF inst r] inst r1 by simp
qed

text \<open>
  The claim C1 as stated fails: the program \<open>modify\<close> is installed, \<open>modify speed -x\<close>
  ends with exit code 2, its last argument starts with \<open>-\<close>, a file of that name exists,
  and the status is success.
\<close>

theorem execute_cdp_flag_counterexample:
  "path_exists demo_world (path_join (CDP_PATH demo_world) ''modify'')
   \<and> fst (run_cdp_command demo_world [''modify'', ''speed'', ''-x'']) = (2, '''', ''ERROR: bad mode'')
   \<and> startswith (last [''modify'', ''speed'', ''-x'']) ''-''
   \<and> fst (execute_cdp demo_world [''modify'', ''speed'', ''-x'']) ''status'' = Some (PyStr ''success'')"
  by (simp add: execute_cdp_def demo_defs)

text \<open>
  Claim C3, as the code has it.  When the run yields exit code 1 with empty stdout and
  non-empty stderr, \<open>execute_cdp\<close> reports status success if the array has more than two
  elements and its last element, read as a path, exists after the run, and status failed
  otherwise.
\<close>

theorem execute_cdp_exit_one_stderr:
  assumes "run_cdp_command w command = ((1, [], err), w')"
    and "err \<noteq> []"
  shows "fst (execute_cdp w command) ''status'' =
           Some (PyStr (if length command > 2 \<and> path_exists w' (Path (last command))
                        then ''success'' else ''failed''))"
proof -
  from assms(1) have "command \<noteq> []"
    by (auto simp: run_cdp_command_Nil)
  from execute_cdp_status [OF this assms(1)] assms(2) show ?thesis
    by simp
qed

theorem execute_cdp_exit_one_stderr_witness:
  "fst (execute_cdp demo_world [''sndinfo'', ''props'', ''in.wav'']) ''status'' = Some (PyStr ''success'')"
proof -
  let ?c = "[''sndinfo'', ''props'', ''in.wav'']"
  have r: "run_cdp_command demo_world ?c =
             ((1, [], ''WARNING: no peak data''), snd (run_cdp_command demo_world ?c))"
    by (simp add: demo_defs)
  have e: "''WARNING: no peak data'' \<noteq> []" by simp
  have p: "path_exists (snd (run_cdp_command demo_world ?c)) (Path (last ?c))"
    by (simp add: demo_defs)
  show ?thesis
    using execute_cdp_exit_one_stderr [OF r e] p by simp
qed

text \<open>
  The claim C3 as stated fails on an array of two elements: \<open>sndinfo in.wav\<close> ends with
  exit code 1, empty stdout and non-empty stderr, its last argument names a file that
  exists, and the status is failed.
\<close>

theorem execute_cdp_short_command_counterexample:
  "run_cdp_command demo_world [''sndinfo'', ''in.wav'']
     = ((1, '''', ''ERROR: no mode''), snd (run_cdp_command demo_world [''sndinfo'', ''in.wav'']))
   \<and> path_exists (snd (run_cdp_command demo_world [''sndinfo'', ''in.wav'']))
        (Path (last [''sndinfo'', ''in.wav'']))
   \<and> is_file (snd (run_cdp_command demo_world [''sndinfo'', ''in.wav''])) ''in.wav''
   \<and> fst (execute_cdp demo_world [''sndinfo'', ''in.wav'']) ''status'' = Some (PyStr ''failed'')"
  by (simp add: execute_cdp_def is_file_def demo_defs)

subsection \<open>A program that is not installed\<close>

text \<open>
  What \<open>execute_cdp\<close> returns when the program is not under \<open>CDP_PATH\<close>: no process is
  started, the exit code is -1 and stderr holds the not-found message; the status is
  decided by the last argument alone.
\<close>

lemma execute_cdp_not_found:
  assumes "\<not> path_exists w (path_join (CDP_PATH w) program)"
  shows "execute_cdp w (program # args) =
           (let command = program # args;
                stderr = ''Program '' @ apostrophe @ program @ apostrophe @ '' not found at ''
                         @ path_join (CDP_PATH w) program;
                result = [''status'' \<mapsto> PyStr (if length command > 2 \<and> path_exists w (Path (last command))
                                                    then ''success'' else ''failed''),
                          ''exit_code'' \<mapsto> PyInt (- 1),
                          ''command'' \<mapsto> PyStr (str_join '' '' command),
                          ''stdout'' \<mapsto> PyStr '''',
                          ''stderr'' \<mapsto> PyStr stderr]
            in (if length command > 2 \<and> \<not> startswith (last command) ''-'' \<and> str_in ''.'' (last command)
                then (if path_exists w (Path (last command))
                      then result(''output_file'' \<mapsto> PyStr (last command), ''output_exists'' \<mapsto> PyBool True)
                      else result(''output_file'' \<mapsto> PyStr (last command)))
                else result, w))"
  using assms by (simp add: execute_cdp_def run_cdp_command_def Let_def apostrophe_def)

text \<open>
  Claim C2.  For a program with no file under the base directory, \<open>execute_cdp\<close> is to
  return status failed with a not-found message.  On the sample installation the program
  \<open>nosuch\<close> is not installed and no process is started, yet the status is success,
  because the last argument \<open>out.wav\<close> names a file that exists already.
\<close>

theorem execute_cdp_missing_program_success:
  "\<not> path_exists demo_world (path_join (CDP_PATH demo_world) ''nosuch'')
   \<and> fst (execute_cdp demo_world [''nosuch'', ''in.wav'', ''out.wav'']) ''status''
       = Some (PyStr ''success'')
   \<and> fst (execute_cdp demo_world [''nosuch'', ''in.wav'', ''out.wav'']) ''exit_code''
       = Some (PyInt (- 1))
   \<and> fst (execute_cdp demo_world [''nosuch'', ''in.wav'', ''out.wav'']) ''stderr''
       = Some (PyStr (''Program '' @ apostrophe @ ''nosuch'' @ apostrophe
                      @ '' not found at /opt/cdp/nosuch''))
   \<and> spawned (snd (execute_cdp demo_world [''nosuch'', ''in.wav'', ''out.wav''])) = []"
  by (simp add: execute_cdp_def demo_defs)

subsection \<open>The output-file keys\<close>

text \<open>
  Claim C9.  For every non-empty command array, the result holds the key \<open>output_file\<close>,
  set to the last argument, exactly when the array has more than two elements and the last
  argument does not start with \<open>-\<close> and contains a dot; it holds the key
  \<open>output_exists\<close>, set to true, exactly when in addition that path exists after the run,
  and never holds it with the value false.
\<close>

theorem execute_cdp_output_keys:
  assumes "command \<noteq> []"
  shows "fst (execute_cdp w command) ''output_file'' =
           (if length command > 2 \<and> \<not> startswith (last command) ''-'' \<and> str_in ''.'' (last command)
            then Some (PyStr (last command)) else None)
         \<and> fst (execute_cdp w command) ''output_exists'' =
           (if length command > 2 \<and> \<not> startswith (last command) ''-'' \<and> str_in ''.'' (last command)
               \<and> path_exists (snd (execute_cdp w command)) (Path (last command))
            then Some (PyBool True) else None)"
  using assms by (simp add: execute_cdp_def Let_def split: prod.splits)

theorem execute_cdp_output_keys_witness:
  "fst (execute_cdp demo_world [''housekeep'', ''chans'', ''4'', ''stereo.wav'', ''mono.wav'']) ''output_file''
     = Some (PyStr ''mono.wav'')
   \<and> fst (execute_cdp demo_world [''housekeep'', ''chans'', ''4'', ''stereo.wav'', ''mono.wav'']) ''output_exists''
     = Some (PyBool True)"
proof -
  let ?c = "[''housekeep'', ''chans'', ''4'', ''stereo.wav'', ''mono.wav'']"
  have ne: "?c \<noteq> []" by simp
  have p: "path_exists (snd (execute_cdp demo_world ?c)) (Path (last ?c))"
    by (simp add: execute_cdp_def demo_defs)
  have d: "length ?c > 2 \<and> \<not> startswith (last ?c) ''-'' \<and> str_in ''.'' (last ?c)"
    by (simp add: startswith_def)
  show ?thesis
    using execute_cdp_output_keys [OF ne, of demo_world] p d by simp
qed

subsection \<open>The empty command array\<close>

lemma subprocess_run_spawned:
  "spawned (snd (subprocess_run w cmd cwd timeout)) = spawned w @ [cmd]"
  by (simp add: subprocess_run_def split: prod.splits)

text \<open>
  Claim C10.  For the empty command array, \<open>execute_cdp\<close> returns a dictionary with status
  failed and an error message, with none of the keys \<open>exit_code\<close>, \<open>command\<close>,
  \<open>stdout\<close>, \<open>stderr\<close>, and leaves the world as it was: no process is started.
\<close>

theorem execute_cdp_empty:
  "fst (execute_cdp w []) ''status'' = Some (PyStr ''failed'')
   \<and> fst (execute_cdp w []) ''error'' = Some (PyStr ''Empty command array provided'')
   \<and> fst (execute_cdp w []) ''exit_code'' = None
   \<and> fst (execute_cdp w []) ''command'' = None
   \<and> fst (execute_cdp w []) ''stdout'' = None
   \<and> fst (execute_cdp w []) ''stderr'' = None
   \<and> dom (fst (execute_cdp w [])) = {''status'', ''error''}
   \<and> snd (execute_cdp w []) = w
   \<and> spawned (snd (execute_cdp w [])) = spawned w"
  by (auto simp: execute_cdp_def)

theorem execute_cdp_empty_witness:
  "fst (execute_cdp demo_world []) ''status'' = Some (PyStr ''failed'')
   \<and> fst (execute_cdp demo_world []) ''stdout'' = None
   \<and> spawned (snd (execute_cdp demo_world [])) = []"
  using execute_cdp_empty [of demo_world] by (simp add: demo_world_def)

section \<open>Properties of \<open>list_cdp_programs\<close>\<close>

text \<open>
  Claim C8.  Whatever the installation directory holds, no category of the mapping that
  \<open>list_cdp_programs\<close> returns has an empty list of programs.
\<close>

theorem list_cdp_programs_no_empty:
  "[] \<notin> snd ` set (list_cdp_programs w)"
  by (auto simp: list_cdp_programs_def scan_cdp_programs_def Let_def
           split: sum.splits prod.splits)

lemma demo_listing:
  "list_cdp_programs demo_world =
     [(''Spectral Processing'', [''blur'']), (''Time Domain'', [''modify'']),
      (''Analysis and Utility'', [''housekeep'', ''sndinfo'']), (''Other'', [''zither''])]"
  by code_simp

theorem list_cdp_programs_no_empty_witness:
  "list_cdp_programs demo_world =
     [(''Spectral Processing'', [''blur'']), (''Time Domain'', [''modify'']),
      (''Analysis and Utility'', [''housekeep'', ''sndinfo'']), (''Other'', [''zither''])]
   \<and> [] \<notin> snd ` set (list_cdp_programs demo_world)"
  using list_cdp_programs_no_empty [of demo_world] demo_listing by simp

section \<open>Properties of the usage probe\<close>

text \<open>
  Claim C6.  \<open>run_cdp_for_usage\<close> runs the program under the timeout 5, and it returns
  the triple with the timeout message exactly when the program is installed and that run
  timed out: no completed process, whatever its exit code and output, no other exception
  and no missing program yields this triple.
\<close>

theorem run_cdp_for_usage_timeout:
  "fst (run_cdp_for_usage w program subprogram)
     = (- 1, [], ''Command timed out - program may be waiting for input'')
   \<longleftrightarrow> path_exists w (path_join (CDP_PATH w) program)
       \<and> is_TimeoutExpired
           (fst (subprocess_run w (usage_cmd w (path_join (CDP_PATH w) program) subprogram)
                   None (Some 5)))"
  by (cases "fst (subprocess_run w (usage_cmd w (path_join (CDP_PATH w) program) subprogram)
                   None (Some 5))")
     (auto simp: run_cdp_for_usage_def Let_def split: prod.splits run_outcome.splits)

theorem run_cdp_for_usage_timeout_witness:
  "fst (run_cdp_for_usage demo_world ''modify'' None)
     = (- 1, [], ''Command timed out - program may be waiting for input'')"
proof -
  have "path_exists demo_world (path_join (CDP_PATH demo_world) ''modify'')
        \<and> is_TimeoutExpired
            (fst (subprocess_run demo_world
                    (usage_cmd demo_world (path_join (CDP_PATH demo_world) ''modify'') None)
                    None (Some 5)))"
    by (simp add: demo_defs)
  then show ?thesis
    using run_cdp_for_usage_timeout [of demo_world "''modify''" None] by blast
qed

lemma if_upd_other:
  "k \<noteq> k' \<Longrightarrow> (if c then m(k' \<mapsto> v) else m) k = m k"
  by simp

lemma get_cdp_usage_usage_text:
  "fst (get_cdp_usage w program subprogram) ''usage_text'' =
     Some (PyStr (case fst (run_cdp_for_usage w program subprogram) of
                    (exit_code, output, stderr) \<Rightarrow> if output \<noteq> [] then output else stderr))"
  by (simp add: get_cdp_usage_def Let_def if_upd_other split: prod.splits)

text \<open>
  Claim C7.  The response of \<open>get_cdp_usage\<close> holds the captured text under
  \<open>usage_text\<close>; it holds the key \<open>has_usage\<close>, set to true, exactly when that text
  contains \<open>USAGE:\<close> or \<open>Usage:\<close>, and does not hold the key otherwise.
\<close>

theorem get_cdp_usage_has_usage:
  "\<exists>text. fst (get_cdp_usage w program subprogram) ''usage_text'' = Some (PyStr text)
         \<and> fst (get_cdp_usage w program subprogram) ''has_usage'' =
             (if str_in ''USAGE:'' text \<or> str_in ''Usage:'' text
              then Some (PyBool True) else None)"
proof -
  obtain code out err w'
    where r: "run_cdp_for_usage w program subprogram = ((code, out, err), w')"
    by (cases "run_cdp_for_usage w program subprogram") auto
  let ?text = "if out \<noteq> [] then out else err"
  have "fst (get_cdp_usage w program subprogram) ''usage_text'' = Some (PyStr ?text)"
    using r by (simp add: get_cdp_usage_def Let_def if_upd_other)
  moreover have "fst (get_cdp_usage w program subprogram) ''has_usage'' =
                   (if str_in ''USAGE:'' ?text \<or> str_in ''Usage:'' ?text
                    then Some (PyBool True) else None)"
    using r by (simp add: get_cdp_usage_def Let_def if_upd_other)
  ultimately show ?thesis by blast
qed

theorem get_cdp_usage_has_usage_witness:
  "fst (get_cdp_usage demo_world ''blur'' None) ''has_usage'' = Some (PyBool True)
   \<and> fst (get_cdp_usage demo_world ''sndinfo'' None) ''has_usage'' = None"
proof -
  have u: "fst (get_cdp_usage demo_world ''blur'' None) ''usage_text''
             = Some (PyStr ''USAGE: blur NAME (mode) infile outfile parameters'')"
    by (simp add: get_cdp_usage_usage_text demo_defs)
  have v: "fst (get_cdp_usage demo_world ''sndinfo'' None) ''usage_text''
             = Some (PyStr ''Failed to execute: [Errno 8] Exec format error'')"
    by (simp add: get_cdp_usage_usage_text demo_defs)
  have a: "str_in ''USAGE:'' ''USAGE: blur NAME (mode) infile outfile parameters''"
    by code_simp
  have b: "\<not> str_in ''USAGE:'' ''Failed to execute: [Errno 8] Exec format error''"
    by code_simp
  have c: "\<not> str_in ''Usage:'' ''Failed to execute: [Errno 8] Exec format error''"
    by code_simp
  from get_cdp_usage_has_usage [of demo_world "''blur''" None] u a
  have "fst (get_cdp_usage demo_world ''blur'' None) ''has_usage'' = Some (PyBool True)"
    by auto
  moreover
  from get_cdp_usage_has_usage [of demo_world "''sndinfo''" None] v b c
  have "fst (get_cdp_usage demo_world ''sndinfo'' None) ''has_usage'' = None"
    by auto
  ultimately show ?thesis by simp
qed

section \<open>Properties of \<open>create_data_file\<close>\<close>

lemma notes_lines: "length (str_split (CHR 0x0A) (str_strip notes_content)) = 2"
  by code_simp

lemma notes_size: "length notes_content = 29" "utf8_length notes_content = 29"
  by (simp_all add: notes_content_def utf8_length_def)

lemma write_text_ok:
  assumes "\<not> is_dir w p" and "write_error w p = None"
  shows "\<exists>w'. write_text w p content = Inr w' \<and> read_text w' p = Some content
              \<and> path_exists w' p"
proof (cases "map_of (nodes w) p")
  case None
  with assms(2) show ?thesis
    by (simp add: write_text_def read_text_def path_exists_def update_conv')
next
  case (Some n)
  with assms(1) obtain c x where "n = RegFile c x"
    by (cases n) (auto simp: is_dir_def)
  with Some assms(2) show ?thesis
    by (simp add: write_text_def read_text_def path_exists_def update_conv')
qed

text \<open>
  Claim C5.  When the resolved path of \<open>notes.txt\<close> is not a directory and the operating
  system lets it be written, \<open>create_data_file\<close> on the two-line note content returns
  status success with \<open>lines\<close> 2 and \<open>size\<close> the byte length of the content, and the
  file at the returned path then reads back as exactly the content.
\<close>

theorem create_data_file_notes:
  assumes "\<not> is_dir w (Path (path_join (TEMP_DIR w) ''notes.txt''))"
    and "write_error w (Path (path_join (TEMP_DIR w) ''notes.txt'')) = None"
  shows "fst (create_data_file w ''notes.txt'' notes_content) ''status'' = Some (PyStr ''success'')
       \<and> fst (create_data_file w ''notes.txt'' notes_content) ''lines'' = Some (PyInt 2)
       \<and> fst (create_data_file w ''notes.txt'' notes_content) ''size''
           = Some (PyInt (int (utf8_length notes_content)))
       \<and> fst (create_data_file w ''notes.txt'' notes_content) ''filepath''
           = Some (PyStr (path_join (TEMP_DIR w) ''notes.txt''))
       \<and> read_text (snd (create_data_file w ''notes.txt'' notes_content))
            (Path (path_join (TEMP_DIR w) ''notes.txt'')) = Some notes_content"
proof -
  obtain w' where w': "write_text w (Path (path_join (TEMP_DIR w) ''notes.txt'')) notes_content = Inr w'"
      "read_text w' (Path (path_join (TEMP_DIR w) ''notes.txt'')) = Some notes_content"
      "path_exists w' (Path (path_join (TEMP_DIR w) ''notes.txt''))"
    using write_text_ok [OF assms] by blast
  have rel: "\<not> isabs ''notes.txt''"
    by (simp add: isabs_def startswith_def)
  show ?thesis
    using w' rel by (simp add: create_data_file_def Let_def notes_lines notes_size)
qed

theorem create_data_file_notes_witness:
  "fst (create_data_file demo_world ''notes.txt'' notes_content) ''lines'' = Some (PyInt 2)
   \<and> fst (create_data_file demo_world ''notes.txt'' notes_content) ''size'' = Some (PyInt 29)
   \<and> read_text (snd (create_data_file demo_world ''notes.txt'' notes_content))
        ''/tmp/cdp_mcp/notes.txt'' = Some notes_content"
proof -
  have p: "Path (path_join (TEMP_DIR demo_world) ''notes.txt'') = ''/tmp/cdp_mcp/notes.txt''"
    by (simp add: demo_defs)
  have d: "\<not> is_dir demo_world (Path (path_join (TEMP_DIR demo_world) ''notes.txt''))"
    unfolding p by (simp add: is_dir_def demo_world_def)
  have e: "write_error demo_world (Path (path_join (TEMP_DIR demo_world) ''notes.txt'')) = None"
    by (simp add: demo_world_def)
  show ?thesis
    using create_data_file_notes [OF d e] p by (simp add: notes_size)
qed

end
